theory Spec2Isabelle
  imports Main
begin

section \<open>C values\<close>

text \<open>
  The library is C for an LP64 host: \<open>int\<close> has 32 bits, \<open>unsigned long\<close> and
  \<open>size_t\<close> have 64. A C integer is an \<open>int\<close> here and every conversion the
  source performs is written out: \<open>to_int\<close> is the conversion to \<open>int\<close> (two's
  complement, as the compiler does it for a cast and for arithmetic that leaves the
  range), \<open>to_ulong\<close> the conversion to \<open>unsigned long\<close>.
\<close>

definition to_int :: "int \<Rightarrow> int" where
  "to_int x = (x + 2147483648) mod 4294967296 - 2147483648"

definition to_ulong :: "int \<Rightarrow> int" where
  "to_ulong x = x mod 18446744073709551616"

abbreviation INT_MAX :: int where
  "INT_MAX \<equiv> 2147483647"

abbreviation ULONG_LIMIT :: int where
  "ULONG_LIMIT \<equiv> 18446744073709551616"

abbreviation NUL :: char where
  "NUL \<equiv> CHR 0x00"

text \<open>
  A pointer is \<open>None\<close> when it is NULL and \<open>Some\<close> of what it points to
  otherwise. A block of \<open>char\<close> is the list of its bytes. A function of the source
  whose behaviour is undefined on some input (it writes through NULL or outside a
  block) returns \<open>None\<close> there.
\<close>

definition memcpy :: "string \<Rightarrow> string \<Rightarrow> int \<Rightarrow> string option" where
  "memcpy dst src n =
     (if nat n \<le> length dst \<and> nat n \<le> length src
      then Some (take (nat n) src @ drop (nat n) dst) else None)"

definition store :: "string \<Rightarrow> int \<Rightarrow> char \<Rightarrow> string option" where
  "store b i c = (if 0 \<le> i \<and> nat i < length b then Some (b[nat i := c]) else None)"

text \<open>
  A message buffer belongs to the caller, who passes its length beside it. It is the
  list of the bytes stored from its start; a write that ends past the end of the list
  extends the list, so the length of the caller's array is not part of the model.
  \<open>strncpy\<close> writes exactly \<open>n\<close> bytes: the source, cut or padded with NUL.
\<close>

definition strncpy :: "string \<Rightarrow> string \<Rightarrow> int \<Rightarrow> string" where
  "strncpy dst src n = take (nat n) (src @ replicate (nat n) NUL) @ drop (nat n) dst"

definition strcpy :: "string \<Rightarrow> string \<Rightarrow> string" where
  "strcpy dst src = src @ NUL # drop (Suc (length src)) dst"

text \<open>
  What the functions do to the heap and to the log is recorded as a list of events, in
  the order of the calls. \<open>free\<close> of a NULL pointer does nothing and is not recorded.
\<close>

datatype obj = Pattern | ReturnBuffer | Context | Source

datatype event = Malloc int | Free obj | Log int

section \<open>The host's and the library's structures\<close>

datatype Item_result = STRING_RESULT | REAL_RESULT | INT_RESULT | ROW_RESULT | DECIMAL_RESULT

text \<open>
  \<open>UDF_ARGS\<close> and \<open>UDF_INIT\<close> are the host's (MySQL's) structures. The arrays of
  \<open>UDF_ARGS\<close> are pointers, read and written by index with no bound of their own.
\<close>

record UDF_ARGS =
  arg_count :: int
  arg_type :: "nat \<Rightarrow> Item_result"
  args :: "nat \<Rightarrow> string option"
  lengths :: "nat \<Rightarrow> int"

text \<open>
  Modelled from the spec: \<open>struct preg_s\<close> is declared in preg.h, which is not among
  the sources. Its fields are the ones preg.c uses; the capacity of the output buffer
  is an unsigned size (the spec's \<open>output_capacity: usize\<close>). The type \<open>'p\<close> is the
  engine's compiled pattern (\<open>pcre\<close>).
\<close>

record 'p preg_s =
  re :: "'p option"
  constant_pattern :: int
  return_buffer :: "string option"
  return_buffer_size :: int

record 'p UDF_INIT =
  maybe_null :: int
  max_length :: int
  ptr :: "'p preg_s option"

text \<open>\<open>MYSQL_ERRMSG_SIZE\<close> is the host's macro (mysql\_com.h).\<close>

abbreviation MYSQL_ERRMSG_SIZE :: int where
  "MYSQL_ERRMSG_SIZE \<equiv> 512"

section \<open>preg.c\<close>

subsection \<open>pregCompileRegexArg, initPtrInfo\<close>

text \<open>
  \<open>ghargdup\<close> (ghmysql.c) and \<open>compileRegex\<close> (from_php.c) are parameters of the
  functions that call them.
\<close>

definition pregCompileRegexArg ::
  "(UDF_ARGS \<Rightarrow> nat \<Rightarrow> string option) \<Rightarrow>
   (string \<Rightarrow> int \<Rightarrow> string \<Rightarrow> int \<Rightarrow> 'p option \<times> string) \<Rightarrow>
   UDF_ARGS \<Rightarrow> string \<Rightarrow> int \<Rightarrow> 'p option \<times> string" where
  "pregCompileRegexArg ghargdup compileRegex a msg msglen =
     (let msg0 = NUL # tl msg in
      case ghargdup a 0 of
        None \<Rightarrow>
          if lengths a 0 \<noteq> 0 \<and> args a 0 \<noteq> None
          then (None, strncpy msg0 ''Out of memory'' (to_ulong msglen))
          else (None, strncpy msg0 ''Empty pattern'' (to_ulong msglen))
      | Some val \<Rightarrow> compileRegex val (to_int (lengths a 0)) msg0 msglen)"

definition initPtrInfo ::
  "(UDF_ARGS \<Rightarrow> nat \<Rightarrow> string option) \<Rightarrow>
   (string \<Rightarrow> int \<Rightarrow> string \<Rightarrow> int \<Rightarrow> 'p option \<times> string) \<Rightarrow>
   'p preg_s \<Rightarrow> UDF_ARGS \<Rightarrow> string \<Rightarrow> int \<times> 'p preg_s \<times> string" where
  "initPtrInfo ghargdup compileRegex p a message =
     (case pregCompileRegexArg ghargdup compileRegex a message 128 of
        (r, m) \<Rightarrow> (if r = None then 1 else 0, p\<lparr>re := r\<rparr>, m))"

text \<open>
  Modelled from the spec: \<open>ghargdup\<close> (ghmysql.c) is not among the sources. The spec
  has the compiler fail with EmptyPattern "if the argument is absent or zero-length" and
  with OutOfMemory "if argument duplication fails"; pregCompileRegexArg reports both
  from a NULL duplicate, so the duplicate is NULL for an absent or empty argument and
  when the allocation fails (\<open>dup_ok\<close> is the allocator's answer), and the argument's
  bytes otherwise.
\<close>

definition ghargdup_spec :: "bool \<Rightarrow> UDF_ARGS \<Rightarrow> nat \<Rightarrow> string option" where
  "ghargdup_spec dup_ok a n =
     (case args a n of
        None \<Rightarrow> None
      | Some bytes \<Rightarrow>
          if lengths a n = 0 then None
          else if dup_ok then Some (take (nat (lengths a n)) bytes)
          else None)"

text \<open>
  Modelled from the spec: \<open>compileRegex\<close> (from_php.c) is not among the sources. The
  spec has it give the compiled pattern, or fail with an "engine-supplied" diagnostic
  whose "length is capped" by the bounded buffer. \<open>engine\<close> is the regex engine's
  answer for a pattern text: a diagnostic or a compiled pattern.
\<close>

definition compileRegex_spec ::
  "(string \<Rightarrow> string + 'p) \<Rightarrow> string \<Rightarrow> int \<Rightarrow> string \<Rightarrow> int \<Rightarrow> 'p option \<times> string" where
  "compileRegex_spec engine val len msg msglen =
     (case engine (take (nat len) val) of
        Inl diag \<Rightarrow> (None, take (nat msglen) diag @ drop (min (length diag) (nat msglen)) msg)
      | Inr p \<Rightarrow> (Some p, msg))"

subsection \<open>pregCreateOffsetsVector\<close>

text \<open>
  \<open>pcre_fullinfo\<close> is the engine's: its return code and the capture count it stores.
  \<open>malloc\<close> answers a request of so many bytes with NULL or with the contents of the
  new block; the vector has one \<open>int\<close> for every four bytes.
\<close>

definition pregCreateOffsetsVector ::
  "('p \<Rightarrow> int \<times> int) \<Rightarrow> (int \<Rightarrow> int list option) \<Rightarrow> 'p \<Rightarrow> string \<Rightarrow> int \<Rightarrow>
   int list option \<times> int \<times> string" where
  "pregCreateOffsetsVector pcre_fullinfo malloc p msg msglen =
     (case pcre_fullinfo p of
        (rc, captures) \<Rightarrow>
          if rc < 0
          then (None, 0,
                strncpy msg ''preg: error retrieving information about pattern'' (to_ulong msglen))
          else
            let oveccount = to_int (to_int (captures + 1) * 3) in
            case malloc (to_ulong (4 * to_ulong oveccount)) of
              None \<Rightarrow> (None, 0, strncpy msg ''preg: out of memory'' (to_ulong msglen))
            | Some ovec \<Rightarrow> (Some ovec, oveccount, msg))"

subsection \<open>pregSkipToOccurence\<close>

text \<open>
  \<open>pcre_exec\<close> is the engine's: from the pattern, the subject, the offset at which the
  attempt starts, the length left, the vector and its size, it gives its return code
  and the vector as it leaves it. The out-parameter \<open>rc\<close> is a pointer to an \<open>int\<close>.
  \<open>pregSetLimits\<close> only sets the engine's limits in \<open>extra\<close>, which are part
  of the engine's answer. Pointers into the subject are offsets from its start; the
  subject itself is not NULL. The loop's state is
  \<open>occurence\<close>, \<open>subject_offset\<close>, \<open>ex_subject\<close>, the vector, \<open>rc\<close> and the
  offsets of the attempts made so far.
\<close>

text \<open>
  The loop's variant: how many times \<open>occurence--\<close> runs before \<open>occurence\<close> is
  0, a negative count wrapping around at the least \<open>int\<close>.
\<close>

definition occurence_measure :: "int \<Rightarrow> nat" where
  "occurence_measure n =
     (if 0 \<le> n \<and> n \<le> INT_MAX then nat n
      else if - 2147483648 \<le> n \<and> n < 0 then nat (n + 4294967296)
      else 4294967296)"

function skip_loop ::
  "('p \<Rightarrow> string \<Rightarrow> int \<Rightarrow> int \<Rightarrow> int list \<Rightarrow> int \<Rightarrow> int \<times> int list) \<Rightarrow>
   'p \<Rightarrow> string \<Rightarrow> int \<Rightarrow> int \<Rightarrow>
   int \<Rightarrow> int \<Rightarrow> int \<Rightarrow> int list \<Rightarrow> int option \<Rightarrow> int list \<Rightarrow>
   (int \<times> int list \<times> int option \<times> int list) option" where
  "skip_loop pcre_exec p subject subject_len oveccount
       occurence subject_offset ex_subject ovector rc attempts =
     (if occurence \<noteq> 0 \<and> subject_offset \<le> subject_len then
        (case rc of
           None \<Rightarrow> None
         | Some old \<Rightarrow>
             (case pcre_exec p subject subject_offset (to_int (subject_len - subject_offset))
                     ovector oveccount of
                (r, ovector') \<Rightarrow>
                  if r \<le> 0
                  then Some (ex_subject, ovector', Some r, attempts @ [subject_offset])
                  else if length ovector' < 2 then None
                  else skip_loop pcre_exec p subject subject_len oveccount
                         (to_int (occurence - 1)) (to_int (subject_offset + ovector' ! 1))
                         subject_offset ovector' (Some r) (attempts @ [subject_offset])))
      else Some (ex_subject, ovector, rc, attempts))"
  by pat_completeness auto

termination skip_loop
proof (relation "measure (\<lambda>(e, p, s, sl, oc, occurence, rest). occurence_measure occurence)",
       goal_cases)
  case 1
  show ?case by simp
next
  case (2 pcre_exec p subject subject_len oveccount n)
  have "occurence_measure (to_int (n - 1)) < occurence_measure n"
  proof -
    consider (pos) "0 < n" "n \<le> INT_MAX"
      | (neg) "- 2147483648 < n" "n < 0"
      | (least) "n = - 2147483648"
      | (out) "n < - 2147483648 \<or> INT_MAX < n"
      using 2(1) by linarith
    then show ?thesis
    proof cases
      case pos
      then have "to_int (n - 1) = n - 1" by (simp add: to_int_def)
      with pos show ?thesis by (simp add: occurence_measure_def)
    next
      case neg
      then have "to_int (n - 1) = n - 1" by (simp add: to_int_def)
      with neg show ?thesis by (simp add: occurence_measure_def)
    next
      case least
      then show ?thesis by (simp add: occurence_measure_def to_int_def)
    next
      case out
      have "- 2147483648 \<le> to_int (n - 1) \<and> to_int (n - 1) \<le> INT_MAX"
        using pos_mod_sign [of 4294967296 "n - 1 + 2147483648"]
              pos_mod_bound [of 4294967296 "n - 1 + 2147483648"]
        by (simp add: to_int_def)
      then have "occurence_measure (to_int (n - 1)) < 4294967296"
        by (auto simp: occurence_measure_def)
      moreover from out have "occurence_measure n = 4294967296"
        by (auto simp: occurence_measure_def)
      ultimately show ?thesis by simp
    qed
  qed
  then show ?case by simp
qed

declare skip_loop.simps [simp del]

text \<open>
  After the loop the source tests \<open>rc > 0\<close>, the pointer, where the loop tested
  \<open>*rc <= 0\<close>, the \<open>int\<close>: the test holds of every pointer but NULL.
\<close>

definition pregSkipToOccurence ::
  "('p \<Rightarrow> string \<Rightarrow> int \<Rightarrow> int \<Rightarrow> int list \<Rightarrow> int \<Rightarrow> int \<times> int list) \<Rightarrow>
   'p \<Rightarrow> string \<Rightarrow> int \<Rightarrow> int list \<Rightarrow> int \<Rightarrow> int \<Rightarrow> int option \<Rightarrow>
   (int option \<times> int list \<times> int option \<times> int list) option" where
  "pregSkipToOccurence pcre_exec p subject subject_len ovector oveccount occurence rc =
     (case skip_loop pcre_exec p subject subject_len oveccount occurence 0 0 ovector rc [] of
        None \<Rightarrow> None
      | Some (ex_subject, ovector', rc', attempts) \<Rightarrow>
          Some (if rc \<noteq> None then Some ex_subject else None, ovector', rc', attempts))"

subsection \<open>destroyPtrInfo, pregDeInit\<close>

definition destroyPtrInfo :: "'p preg_s \<Rightarrow> 'p preg_s \<times> event list" where
  "destroyPtrInfo p =
     (case (if re p \<noteq> None then (p\<lparr>re := None\<rparr>, [Free Pattern]) else (p, [])) of
        (p1, ev1) \<Rightarrow>
          if return_buffer p1 \<noteq> None
          then (p1\<lparr>return_buffer := None\<rparr>, ev1 @ [Free ReturnBuffer])
          else (p1, ev1))"

definition pregDeInit :: "'p UDF_INIT \<Rightarrow> 'p UDF_INIT \<times> event list" where
  "pregDeInit initid =
     (case ptr initid of
        Some p \<Rightarrow>
          (case destroyPtrInfo p of
             (p', ev) \<Rightarrow> (initid\<lparr>ptr := None\<rparr>, ev @ [Free Context]))
      | None \<Rightarrow> (initid, []))"

subsection \<open>pregInit\<close>

text \<open>
  \<open>gh_1_0_null_handling\<close> says whether the library is built with
  \<open>GH_1_0_NULL_HANDLING\<close>; \<open>ghargIsNullConstant\<close> (ghmysql.c) is a parameter;
  \<open>calloc_ok\<close> is the allocator's answer for the context and \<open>malloc\<close> its answer
  for the output buffer: NULL or the new block. The result is the return value,
  \<open>initid\<close>, \<open>args\<close> and \<open>message\<close> as the call leaves them.
\<close>

definition pregInit ::
  "bool \<Rightarrow> (UDF_ARGS \<Rightarrow> nat \<Rightarrow> bool) \<Rightarrow> bool \<Rightarrow>
   (UDF_ARGS \<Rightarrow> nat \<Rightarrow> string option) \<Rightarrow>
   (string \<Rightarrow> int \<Rightarrow> string \<Rightarrow> int \<Rightarrow> 'p option \<times> string) \<Rightarrow>
   (int \<Rightarrow> string option) \<Rightarrow>
   'p UDF_INIT \<Rightarrow> UDF_ARGS \<Rightarrow> string \<Rightarrow> int \<times> 'p UDF_INIT \<times> UDF_ARGS \<times> string" where
  "pregInit gh_1_0_null_handling ghargIsNullConstant calloc_ok ghargdup compileRegex malloc
       initid a message =
     (if \<not> calloc_ok
      then (1, initid\<lparr>ptr := None\<rparr>, a, strcpy message ''not enough memory'')
      else
        let p0 = \<lparr>re = None, constant_pattern = 0, return_buffer = None,
                  return_buffer_size = 0\<rparr>;
            p1 = (if ghargIsNullConstant a 0 then p0\<lparr>constant_pattern := 1\<rparr> else p0)
        in
        if ghargIsNullConstant a 0 \<and> gh_1_0_null_handling
        then (1, initid\<lparr>ptr := Some p1\<rparr>, a, strcpy message ''NULL pattern'')
        else
          let a1 = a\<lparr>arg_type := (arg_type a)(0 := STRING_RESULT, 1 := STRING_RESULT)\<rparr> in
          case (if arg_count a1 \<noteq> 0 \<and> args a1 0 \<noteq> None
                then (case initPtrInfo ghargdup compileRegex p1 a1 message of
                        (r, p2, m) \<Rightarrow>
                          if r \<noteq> 0 then Inl (p2, m)
                          else Inr (p2\<lparr>constant_pattern := 1\<rparr>, m))
                else Inr (p1\<lparr>constant_pattern := 0\<rparr>, message)) of
            Inl (p2, m) \<Rightarrow> (1, initid\<lparr>ptr := Some p2\<rparr>, a1, m)
          | Inr (p3, m) \<Rightarrow>
              let p4 = (if 0 < to_int (max_length initid)
                        then p3\<lparr>return_buffer_size := to_ulong (max_length initid + 1)\<rparr>
                        else p3\<lparr>return_buffer_size := 1024000\<rparr>);
                  p5 = p4\<lparr>return_buffer := malloc (return_buffer_size p4)\<rparr>
              in (0, initid\<lparr>ptr := Some p5\<rparr>, a1, m))"

subsection \<open>pregCopyToReturnBuffer, pregMoveToReturnValues\<close>

text \<open>
  The result of pregCopyToReturnBuffer is its return value, the context as it leaves
  it and the events. \<open>malloc\<close> answers a request with NULL or with the new block.
\<close>

definition pregCopyToReturnBuffer ::
  "(int \<Rightarrow> string option) \<Rightarrow> 'p preg_s \<Rightarrow> string \<Rightarrow> int \<Rightarrow>
   (int \<times> 'p preg_s \<times> event list) option" where
  "pregCopyToReturnBuffer malloc p s l =
     (case (if return_buffer_size p < to_ulong (to_int (l + 1))
            then (case malloc (to_ulong (to_int (l + 1))) of
                    None \<Rightarrow> Inl [Malloc (to_ulong (to_int (l + 1)))]
                  | Some newbuf \<Rightarrow>
                      Inr (p\<lparr>return_buffer := Some newbuf,
                             return_buffer_size := to_ulong (to_int (l + 1))\<rparr>,
                           Malloc (to_ulong (to_int (l + 1))) #
                           (if return_buffer p \<noteq> None then [Free ReturnBuffer] else [])))
            else Inr (p, [])) of
        Inl ev \<Rightarrow> Some (- 1, p, ev)
      | Inr (p1, ev) \<Rightarrow>
          (case return_buffer p1 of
             None \<Rightarrow> None
           | Some b \<Rightarrow>
               (case memcpy b s (to_ulong l) of
                  None \<Rightarrow> None
                | Some b1 \<Rightarrow>
                    (case store b1 l NUL of
                       None \<Rightarrow> None
                     | Some b2 \<Rightarrow> Some (l, p1\<lparr>return_buffer := Some b2\<rparr>, ev)))))"

text \<open>
  What pregMoveToReturnValues leaves behind: the pointer it returns, \<open>initid\<close>, the
  three out-parameters and the events. \<open>is_null\<close> comes in with the value the caller
  gave it.
\<close>

record 'p returned =
  ret :: "string option"
  ctx :: "'p UDF_INIT"
  out_length :: int
  out_is_null :: int
  out_error :: int
  trace :: "event list"

definition leave :: "'p UDF_INIT \<Rightarrow> 'p preg_s \<Rightarrow> int \<Rightarrow> int \<Rightarrow> int \<Rightarrow> event list \<Rightarrow> 'p returned" where
  "leave initid p is_null error len ev =
     \<lparr>ret = (if is_null \<noteq> 0 then None else return_buffer p),
      ctx = initid\<lparr>ptr := Some p\<rparr>,
      out_length = len, out_is_null = is_null, out_error = error, trace = ev\<rparr>"

definition pregMoveToReturnValues ::
  "(int \<Rightarrow> string option) \<Rightarrow> 'p UDF_INIT \<Rightarrow> int \<Rightarrow> string option \<Rightarrow> int \<Rightarrow>
   'p returned option" where
  "pregMoveToReturnValues malloc initid is_null s s_len =
     (case ptr initid of
        None \<Rightarrow> None
      | Some p \<Rightarrow>
          (case return_buffer p of
             None \<Rightarrow> None
           | Some b \<Rightarrow>
               (case store b 0 NUL of
                  None \<Rightarrow> None
                | Some b0 \<Rightarrow>
                    let p0 = p\<lparr>return_buffer := Some b0\<rparr>;
                        is_null0 = (if maybe_null initid \<noteq> 0 then 1 else is_null)
                    in
                    if 0 \<le> s_len then
                      (case s of
                         Some bytes \<Rightarrow>
                           (case pregCopyToReturnBuffer malloc p0 bytes s_len of
                              None \<Rightarrow> None
                            | Some (l, p1, ev) \<Rightarrow>
                                if 0 \<le> l
                                then Some (leave initid p1 0 0 (to_ulong l) (ev @ [Free Source]))
                                else Some (leave initid p1 is_null0 1 0 (ev @ [Free Source])))
                       | None \<Rightarrow> Some (leave initid p0 0 0 0 []))
                    else Some (leave initid p0 is_null0 1 0 [Log s_len]))))"

section \<open>lib\_mysqludf\_preg\_check.c\<close>

definition preg_check_init ::
  "bool \<Rightarrow> (UDF_ARGS \<Rightarrow> nat \<Rightarrow> bool) \<Rightarrow> bool \<Rightarrow>
   (UDF_ARGS \<Rightarrow> nat \<Rightarrow> string option) \<Rightarrow>
   (string \<Rightarrow> int \<Rightarrow> string \<Rightarrow> int \<Rightarrow> 'p option \<times> string) \<Rightarrow>
   (int \<Rightarrow> string option) \<Rightarrow>
   'p UDF_INIT \<Rightarrow> UDF_ARGS \<Rightarrow> string \<Rightarrow> int \<times> 'p UDF_INIT \<times> UDF_ARGS \<times> string" where
  "preg_check_init gh_1_0_null_handling ghargIsNullConstant calloc_ok ghargdup compileRegex
       malloc initid a message =
     (if arg_count a \<noteq> 1
      then (1, initid, a,
            strncpy message ''preg_check: needs exactly one argument'' MYSQL_ERRMSG_SIZE)
      else
        (case pregInit gh_1_0_null_handling ghargIsNullConstant calloc_ok ghargdup
                compileRegex malloc (initid\<lparr>maybe_null := 0\<rparr>) a message of
           (r, initid', a', message') \<Rightarrow> (0, initid', a', message')))"

section \<open>Arithmetic of the conversions\<close>

lemma to_int_range: "- 2147483648 \<le> to_int x \<and> to_int x \<le> INT_MAX"
  using pos_mod_sign [of 4294967296 "x + 2147483648"]
        pos_mod_bound [of 4294967296 "x + 2147483648"]
  by (simp add: to_int_def)

lemma to_int_id: "- 2147483648 \<le> x \<Longrightarrow> x \<le> INT_MAX \<Longrightarrow> to_int x = x"
  by (simp add: to_int_def)

lemma to_ulong_id: "0 \<le> x \<Longrightarrow> x < ULONG_LIMIT \<Longrightarrow> to_ulong x = x"
  by (simp add: to_ulong_def)

lemma to_ulong_succ:
  assumes "0 \<le> x" "x < ULONG_LIMIT" "0 < to_int x"
  shows "to_ulong (x + 1) = x + 1"
proof (cases "x = 18446744073709551615")
  case True
  with assms(3) show ?thesis by (simp add: to_int_def)
next
  case False
  with assms show ?thesis by (simp add: to_ulong_def)
qed

lemma copy_sizes:
  assumes "0 \<le> l" "l < INT_MAX"
  shows "to_ulong (to_int (l + 1)) = l + 1" and "to_ulong l = l"
  using assms by (simp_all add: to_int_def to_ulong_def)

section \<open>The occurrence walker\<close>

text \<open>
  Claim C1: with \<open>occurence = 0\<close> pregSkipToOccurence makes no match attempt and
  returns NULL. The first half holds: the list of attempts is empty. The second does
  not: for every engine, pattern, subject and vector, and every \<open>rc\<close> that is not
  NULL, the function returns the subject itself (offset 0), because the test after the
  loop is on the pointer \<open>rc\<close> and not on \<open>*rc\<close>.
\<close>

theorem pregSkipToOccurence_zero:
  "pregSkipToOccurence pcre_exec p subject subject_len ovector oveccount 0 (Some r) =
     Some (Some 0, ovector, Some r, [])"
  by (simp add: pregSkipToOccurence_def skip_loop.simps)

text \<open>
  Claim C2: the walker stops at the first attempt that does not match, and when
  \<open>occurence\<close> exceeds the number of matches it returns NULL. The subject
  \<open>xay\<close> has one match of the pattern \<open>/a/\<close>, at offsets 1 to 2: the engine
  below answers 1 with that span for the attempt at offset 0 and PCRE_ERROR_NOMATCH
  (-1) after it. Asked for the second occurrence, the walker makes the attempts at
  offsets 0 and 2, stops, leaves -1 in \<open>*rc\<close>, and returns the subject (offset 0,
  where the last successful attempt started), not NULL: the same test of the pointer
  \<open>rc\<close>.
\<close>

theorem pregSkipToOccurence_beyond_matches:
  "pregSkipToOccurence
      (\<lambda>p s off len ov n. if off = 0 then (1, [1, 2, 0]) else (- 1, ov))
      () ''xay'' 3 [0, 0, 0] 3 2 (Some 0) =
     Some (Some 0, [1, 2, 0], Some (- 1), [0, 2])"
  by (simp add: pregSkipToOccurence_def skip_loop.simps to_int_def)

section \<open>Deinitialization\<close>

text \<open>
  Claim C7, as stated: pregDeInit on a context whose init failed partway performs no
  free. It fails where pregInit has allocated the context and then failed to compile
  the constant pattern: pregInit returns 1, both resource pointers are NULL, and
  pregDeInit frees the context itself.
\<close>

theorem pregDeInit_after_failed_init:
  "fst (pregInit False (\<lambda>a n. False) True (ghargdup_spec True)
          (compileRegex_spec (\<lambda>t. Inl ''missing )''))
          (\<lambda>n. Some (replicate (nat n) NUL))
          \<lparr>maybe_null = 0, max_length = 80, ptr = None\<rparr>
          \<lparr>arg_count = 1, arg_type = (\<lambda>i. STRING_RESULT), args = (\<lambda>i. Some ''/(a/''),
           lengths = (\<lambda>i. 4)\<rparr> []) = 1
   \<and> snd (pregDeInit (fst (snd
        (pregInit False (\<lambda>a n. False) True (ghargdup_spec True)
          (compileRegex_spec (\<lambda>t. Inl ''missing )''))
          (\<lambda>n. Some (replicate (nat n) NUL))
          \<lparr>maybe_null = 0, max_length = 80, ptr = None\<rparr>
          \<lparr>arg_count = 1, arg_type = (\<lambda>i. STRING_RESULT), args = (\<lambda>i. Some ''/(a/''),
           lengths = (\<lambda>i. 4)\<rparr> [])))) = [Free Context]"
  by (simp add: pregInit_def initPtrInfo_def pregCompileRegexArg_def ghargdup_spec_def
        compileRegex_spec_def pregDeInit_def destroyPtrInfo_def to_int_def)

lemma pregInit_failed_context:
  "fst (pregInit g n c d r m initid a message) \<noteq> 0 \<Longrightarrow>
   ptr (fst (snd (pregInit g n c d r m initid a message))) =
     (if c then Some \<lparr>re = None,
                       constant_pattern = (if n a 0 then 1 else 0),
                       return_buffer = None, return_buffer_size = 0\<rparr>
      else None)"
  by (auto simp: pregInit_def initPtrInfo_def Let_def
           split: if_splits prod.splits sum.splits)

text \<open>
  Claim C7, amended: pregDeInit on a context that is not NULL frees the compiled
  pattern if there is one, the output buffer if there is one, each once, then the
  context, and sets the context pointer to NULL; on a NULL context (init never ran) it
  frees nothing and changes nothing. So a second call frees nothing. destroyPtrInfo
  leaves both resource pointers NULL. After every pregInit that fails (its return value
  is not 0): if the context was allocated, pregDeInit frees the context and nothing
  else, and sets the context pointer to NULL; if the allocation of the context failed,
  pregDeInit frees nothing and changes nothing.
\<close>

theorem pregDeInit_frees_once:
  "pregDeInit initid =
     (case ptr initid of
        None \<Rightarrow> (initid, [])
      | Some p \<Rightarrow>
          (initid\<lparr>ptr := None\<rparr>,
           (if re p \<noteq> None then [Free Pattern] else []) @
           (if return_buffer p \<noteq> None then [Free ReturnBuffer] else []) @ [Free Context]))
   \<and> pregDeInit (fst (pregDeInit initid)) = (fst (pregDeInit initid), [])
   \<and> re (fst (destroyPtrInfo q)) = None
   \<and> return_buffer (fst (destroyPtrInfo q)) = None
   \<and> (fst (pregInit g n c d r m initid a message) \<noteq> 0 \<longrightarrow>
        pregDeInit (fst (snd (pregInit g n c d r m initid a message))) =
          (if c
           then ((fst (snd (pregInit g n c d r m initid a message)))\<lparr>ptr := None\<rparr>,
                 [Free Context])
           else (fst (snd (pregInit g n c d r m initid a message)), [])))"
proof -
  have general: "pregDeInit i =
     (case ptr i of
        None \<Rightarrow> (i, [])
      | Some p \<Rightarrow>
          (i\<lparr>ptr := None\<rparr>,
           (if re p \<noteq> None then [Free Pattern] else []) @
           (if return_buffer p \<noteq> None then [Free ReturnBuffer] else []) @ [Free Context]))"
    for i :: "'a UDF_INIT"
    by (simp add: pregDeInit_def destroyPtrInfo_def split: option.split)
  have again: "pregDeInit (fst (pregDeInit initid)) = (fst (pregDeInit initid), [])"
    by (simp add: pregDeInit_def destroyPtrInfo_def split: option.split)
  have nulled: "re (fst (destroyPtrInfo q)) = None \<and> return_buffer (fst (destroyPtrInfo q)) = None"
    by (simp add: destroyPtrInfo_def)
  have failed: "fst (pregInit g n c d r m initid a message) \<noteq> 0 \<longrightarrow>
        pregDeInit (fst (snd (pregInit g n c d r m initid a message))) =
          (if c
           then ((fst (snd (pregInit g n c d r m initid a message)))\<lparr>ptr := None\<rparr>,
                 [Free Context])
           else (fst (snd (pregInit g n c d r m initid a message)), []))"
  proof
    assume f: "fst (pregInit g n c d r m initid a message) \<noteq> 0"
    let ?i = "fst (snd (pregInit g n c d r m initid a message))"
    have p: "ptr ?i =
       (if c then Some \<lparr>re = None, constant_pattern = (if n a 0 then 1 else 0),
                         return_buffer = None, return_buffer_size = 0\<rparr>
        else None)"
      using f by (rule pregInit_failed_context)
    show "pregDeInit ?i = (if c then (?i\<lparr>ptr := None\<rparr>, [Free Context]) else (?i, []))"
      by (simp add: general [of ?i] p)
  qed
  from general [of initid] again nulled failed show ?thesis by blast
qed

text \<open>
  An init that fails on a constant NULL pattern (built with GH\_1\_0\_NULL\_HANDLING)
  after the context was allocated, and an init that fails to allocate the context.
\<close>

theorem pregDeInit_frees_once_witness:
  "fst (pregInit True (\<lambda>a n. True) True (ghargdup_spec True)
          (compileRegex_spec (\<lambda>t. Inr ())) (\<lambda>n. None)
          \<lparr>maybe_null = 0, max_length = 80, ptr = None\<rparr>
          \<lparr>arg_count = 2, arg_type = (\<lambda>i. STRING_RESULT), args = (\<lambda>i. None),
           lengths = (\<lambda>i. 0)\<rparr> []) = 1
   \<and> snd (pregDeInit (fst (snd
        (pregInit True (\<lambda>a n. True) True (ghargdup_spec True)
          (compileRegex_spec (\<lambda>t. Inr ())) (\<lambda>n. None)
          \<lparr>maybe_null = 0, max_length = 80, ptr = None\<rparr>
          \<lparr>arg_count = 2, arg_type = (\<lambda>i. STRING_RESULT), args = (\<lambda>i. None),
           lengths = (\<lambda>i. 0)\<rparr> [])))) = [Free Context]
   \<and> fst (pregInit False (\<lambda>a n. False) False (ghargdup_spec True)
          (compileRegex_spec (\<lambda>t. Inr ())) (\<lambda>n. None)
          \<lparr>maybe_null = 0, max_length = 80, ptr = None\<rparr>
          \<lparr>arg_count = 2, arg_type = (\<lambda>i. STRING_RESULT), args = (\<lambda>i. Some ''/a/''),
           lengths = (\<lambda>i. 3)\<rparr> []) = 1
   \<and> snd (pregDeInit (fst (snd
        (pregInit False (\<lambda>a n. False) False (ghargdup_spec True)
          (compileRegex_spec (\<lambda>t. Inr ())) (\<lambda>n. None)
          \<lparr>maybe_null = 0, max_length = 80, ptr = None\<rparr>
          \<lparr>arg_count = 2, arg_type = (\<lambda>i. STRING_RESULT), args = (\<lambda>i. Some ''/a/''),
           lengths = (\<lambda>i. 3)\<rparr> [])))) = []"
proof -
  have f1: "fst (pregInit True (\<lambda>a n. True) True (ghargdup_spec True)
          (compileRegex_spec (\<lambda>t. Inr ())) (\<lambda>n. None)
          \<lparr>maybe_null = 0, max_length = 80, ptr = None\<rparr>
          \<lparr>arg_count = 2, arg_type = (\<lambda>i. STRING_RESULT), args = (\<lambda>i. None),
           lengths = (\<lambda>i. 0)\<rparr> []) = 1"
    by (simp add: pregInit_def)
  have f2: "fst (pregInit False (\<lambda>a n. False) False (ghargdup_spec True)
          (compileRegex_spec (\<lambda>t. Inr ())) (\<lambda>n. None)
          \<lparr>maybe_null = 0, max_length = 80, ptr = None\<rparr>
          \<lparr>arg_count = 2, arg_type = (\<lambda>i. STRING_RESULT), args = (\<lambda>i. Some ''/a/''),
           lengths = (\<lambda>i. 3)\<rparr> []) = 1"
    by (simp add: pregInit_def)
  show ?thesis
    using f1 f2
      pregDeInit_frees_once [where g = True and n = "\<lambda>a n. True" and c = True
        and d = "ghargdup_spec True" and r = "compileRegex_spec (\<lambda>t. Inr ())"
        and m = "\<lambda>n. None" and initid = "\<lparr>maybe_null = 0, max_length = 80, ptr = None\<rparr>"
        and a = "\<lparr>arg_count = 2, arg_type = (\<lambda>i. STRING_RESULT), args = (\<lambda>i. None),
           lengths = (\<lambda>i. 0)\<rparr>" and message = "[]"
        and q = "\<lparr>re = None :: unit option, constant_pattern = 0,
                   return_buffer = None, return_buffer_size = 0\<rparr>"]
      pregDeInit_frees_once [where g = False and n = "\<lambda>a n. False" and c = False
        and d = "ghargdup_spec True" and r = "compileRegex_spec (\<lambda>t. Inr ())"
        and m = "\<lambda>n. None" and initid = "\<lparr>maybe_null = 0, max_length = 80, ptr = None\<rparr>"
        and a = "\<lparr>arg_count = 2, arg_type = (\<lambda>i. STRING_RESULT), args = (\<lambda>i. Some ''/a/''),
           lengths = (\<lambda>i. 3)\<rparr>" and message = "[]"
        and q = "\<lparr>re = None :: unit option, constant_pattern = 0,
                   return_buffer = None, return_buffer_size = 0\<rparr>"]
    by simp
qed

section \<open>Initialization\<close>

lemma pregInit_capacity_field:
  "fst (pregInit g n c d r m initid a message) = 0 \<Longrightarrow>
   map_option return_buffer_size (ptr (fst (snd (pregInit g n c d r m initid a message)))) =
     Some (if 0 < to_int (max_length initid) then to_ulong (max_length initid + 1)
           else 1024000)"
  by (auto simp: pregInit_def Let_def split: if_splits prod.splits sum.splits)

text \<open>
  Claim C8, as stated: after a successful pregInit the capacity is the host's maximum
  length plus one whenever that maximum is positive. The source tests the maximum
  after a cast to \<open>int\<close>. With the maximum 4294967295, which the host declares for
  its longest text types, the cast gives -1 and the capacity is the default 1024000.
\<close>

theorem pregInit_capacity_unlimited:
  "fst (pregInit False (\<lambda>a n. False) True (ghargdup_spec True)
          (compileRegex_spec (\<lambda>t. Inr ()))
          (\<lambda>n. Some (replicate (nat n) NUL))
          \<lparr>maybe_null = 0, max_length = 4294967295, ptr = None\<rparr>
          \<lparr>arg_count = 2, arg_type = (\<lambda>i. STRING_RESULT), args = (\<lambda>i. Some ''/a/''),
           lengths = (\<lambda>i. 3)\<rparr> []) = 0
   \<and> map_option return_buffer_size (ptr (fst (snd
        (pregInit False (\<lambda>a n. False) True (ghargdup_spec True)
          (compileRegex_spec (\<lambda>t. Inr ()))
          (\<lambda>n. Some (replicate (nat n) NUL))
          \<lparr>maybe_null = 0, max_length = 4294967295, ptr = None\<rparr>
          \<lparr>arg_count = 2, arg_type = (\<lambda>i. STRING_RESULT), args = (\<lambda>i. Some ''/a/''),
           lengths = (\<lambda>i. 3)\<rparr> [])))) = Some 1024000"
  by (simp add: pregInit_def initPtrInfo_def pregCompileRegexArg_def ghargdup_spec_def
        compileRegex_spec_def to_int_def)

text \<open>
  Claim C8, amended: after a successful pregInit (return value 0) the capacity is the
  host's maximum length plus one if that maximum, converted to \<open>int\<close>, is positive,
  and 1024000 otherwise. The maximum is an \<open>unsigned long\<close>.
\<close>

theorem pregInit_capacity:
  assumes "fst (pregInit g n c d r m initid a message) = 0"
    and "0 \<le> max_length initid" and "max_length initid < ULONG_LIMIT"
  shows "map_option return_buffer_size
           (ptr (fst (snd (pregInit g n c d r m initid a message)))) =
         Some (if 0 < to_int (max_length initid) then max_length initid + 1 else 1024000)"
  using assms by (simp add: pregInit_capacity_field to_ulong_succ)

theorem pregInit_capacity_witness:
  "map_option return_buffer_size
     (ptr (fst (snd (pregInit False (\<lambda>a n. False) True (ghargdup_spec True)
          (compileRegex_spec (\<lambda>t. Inr ())) (\<lambda>n. Some (replicate (nat n) NUL))
          \<lparr>maybe_null = 1, max_length = 80, ptr = None\<rparr>
          \<lparr>arg_count = 2, arg_type = (\<lambda>i. STRING_RESULT), args = (\<lambda>i. Some ''/a/''),
           lengths = (\<lambda>i. 3)\<rparr> [])))) = Some 81
   \<and> map_option return_buffer_size
     (ptr (fst (snd (pregInit False (\<lambda>a n. False) True (ghargdup_spec True)
          (compileRegex_spec (\<lambda>t. Inr ())) (\<lambda>n. Some (replicate (nat n) NUL))
          \<lparr>maybe_null = 1, max_length = 0, ptr = None\<rparr>
          \<lparr>arg_count = 2, arg_type = (\<lambda>i. STRING_RESULT), args = (\<lambda>i. Some ''/a/''),
           lengths = (\<lambda>i. 3)\<rparr> [])))) = Some 1024000"
proof -
  have ok: "fst (pregInit False (\<lambda>a n. False) True (ghargdup_spec True)
          (compileRegex_spec (\<lambda>t. Inr ())) (\<lambda>n. Some (replicate (nat n) NUL))
          \<lparr>maybe_null = 1, max_length = k, ptr = None\<rparr>
          \<lparr>arg_count = 2, arg_type = (\<lambda>i. STRING_RESULT), args = (\<lambda>i. Some ''/a/''),
           lengths = (\<lambda>i. 3)\<rparr> []) = 0" for k
    by (simp add: pregInit_def initPtrInfo_def pregCompileRegexArg_def ghargdup_spec_def
          compileRegex_spec_def to_int_def Let_def)
  show ?thesis
    using pregInit_capacity [OF ok [of 80]] pregInit_capacity [OF ok [of 0]]
    by (simp add: to_int_def)
qed

text \<open>
  Claim C10: preg\_check\_init returns 1 exactly when the argument count is not 1.
  With one argument it returns 0 whatever pregInit returns, and leaves \<open>initid\<close>,
  \<open>args\<close> and \<open>message\<close> as pregInit left them.
\<close>

theorem preg_check_init_result:
  "(fst (preg_check_init g n c d r m initid a message) = 1) = (arg_count a \<noteq> 1)
   \<and> (arg_count a = 1 \<longrightarrow>
        preg_check_init g n c d r m initid a message =
          (0, snd (pregInit g n c d r m (initid\<lparr>maybe_null := 0\<rparr>) a message)))"
  by (simp add: preg_check_init_def split: prod.split)

text \<open>
  With one argument, a constant pattern that does not compile: pregInit returns 1 and
  preg\_check\_init returns 0. With two arguments preg\_check\_init returns 1.
\<close>

theorem preg_check_init_result_witness:
  "fst (pregInit False (\<lambda>a n. False) True (ghargdup_spec True)
          (compileRegex_spec (\<lambda>t. Inl ''missing )'')) (\<lambda>n. Some (replicate (nat n) NUL))
          \<lparr>maybe_null = 0, max_length = 21, ptr = None :: unit preg_s option\<rparr>
          \<lparr>arg_count = 1, arg_type = (\<lambda>i. STRING_RESULT), args = (\<lambda>i. Some ''/(a/''),
           lengths = (\<lambda>i. 4)\<rparr> []) = 1
   \<and> fst (preg_check_init False (\<lambda>a n. False) True (ghargdup_spec True)
          (compileRegex_spec (\<lambda>t. Inl ''missing )'')) (\<lambda>n. Some (replicate (nat n) NUL))
          \<lparr>maybe_null = 1, max_length = 21, ptr = None :: unit preg_s option\<rparr>
          \<lparr>arg_count = 1, arg_type = (\<lambda>i. STRING_RESULT), args = (\<lambda>i. Some ''/(a/''),
           lengths = (\<lambda>i. 4)\<rparr> []) = 0
   \<and> fst (preg_check_init False (\<lambda>a n. False) True (ghargdup_spec True)
          (compileRegex_spec (\<lambda>t. Inl ''missing )'')) (\<lambda>n. Some (replicate (nat n) NUL))
          \<lparr>maybe_null = 1, max_length = 21, ptr = None :: unit preg_s option\<rparr>
          \<lparr>arg_count = 2, arg_type = (\<lambda>i. STRING_RESULT), args = (\<lambda>i. Some ''/(a/''),
           lengths = (\<lambda>i. 4)\<rparr> []) = 1"
  using preg_check_init_result [of False "\<lambda>a n. False" True "ghargdup_spec True"
          "compileRegex_spec (\<lambda>t. Inl ''missing )'')" "\<lambda>n. Some (replicate (nat n) NUL)"
          "\<lparr>maybe_null = 1, max_length = 21, ptr = None :: unit preg_s option\<rparr>"
          "\<lparr>arg_count = 1, arg_type = (\<lambda>i. STRING_RESULT), args = (\<lambda>i. Some ''/(a/''),
           lengths = (\<lambda>i. 4)\<rparr>" "[]"]
        preg_check_init_result [of False "\<lambda>a n. False" True "ghargdup_spec True"
          "compileRegex_spec (\<lambda>t. Inl ''missing )'')" "\<lambda>n. Some (replicate (nat n) NUL)"
          "\<lparr>maybe_null = 1, max_length = 21, ptr = None :: unit preg_s option\<rparr>"
          "\<lparr>arg_count = 2, arg_type = (\<lambda>i. STRING_RESULT), args = (\<lambda>i. Some ''/(a/''),
           lengths = (\<lambda>i. 4)\<rparr>" "[]"]
  by (simp add: pregInit_def initPtrInfo_def pregCompileRegexArg_def ghargdup_spec_def
        compileRegex_spec_def to_int_def)

section \<open>The pattern compiler\<close>

lemma drop_strncpy:
  "0 < n \<Longrightarrow> drop (nat n) (strncpy (NUL # tl msg) src n) = drop (nat n) msg"
proof -
  assume n: "0 < n"
  have len: "length (take (nat n) (src @ replicate (nat n) NUL)) = nat n"
    by simp
  have "drop (nat n) (strncpy (NUL # tl msg) src n) = drop (nat n) (NUL # tl msg)"
    unfolding strncpy_def using len by (simp del: length_take take_append)
  also have "\<dots> = drop (nat n) msg"
    using n by (cases "nat n"; cases msg) simp_all
  finally show ?thesis .
qed

lemma drop_compileRegex_spec:
  "0 < n \<Longrightarrow>
   drop (nat n) (snd (compileRegex_spec engine val len (NUL # tl msg) n)) = drop (nat n) msg"
proof -
  assume n: "0 < n"
  have head: "drop (nat n) (NUL # tl msg) = drop (nat n) msg"
    using n by (cases "nat n"; cases msg) simp_all
  show ?thesis
  proof (cases "engine (take (nat len) val)")
    case (Inl diag)
    have "drop (nat n) (take (nat n) diag @ drop (min (length diag) (nat n)) (NUL # tl msg))
            = drop (nat n) (NUL # tl msg)"
      by (simp add: min_def)
    with Inl head show ?thesis by (simp add: compileRegex_spec_def)
  next
    case (Inr c)
    with head show ?thesis by (simp add: compileRegex_spec_def)
  qed
qed

text \<open>
  Claim C6: pregCompileRegexArg fails with "Empty pattern" when the pattern argument is
  absent or has length zero, with "Out of memory" when the duplication of a present,
  non-empty argument fails, and with NULL and the engine's diagnostic when the engine
  rejects the pattern; no diagnostic is written past the length the caller gives for
  the message buffer: the bytes of the buffer from that length on are left as they
  were. initPtrInfo gives the length 128. The duplication and the call of the engine
  are the ones modelled from the spec; the length is a positive \<open>int\<close>.
\<close>

theorem pregCompileRegexArg_diagnostics:
  assumes "0 < msglen" and "msglen \<le> INT_MAX"
  shows "(args a 0 = None \<or> lengths a 0 = 0 \<longrightarrow>
            pregCompileRegexArg (ghargdup_spec dup_ok) (compileRegex_spec engine) a msg msglen =
              (None, strncpy (NUL # tl msg) ''Empty pattern'' msglen))
       \<and> (args a 0 \<noteq> None \<and> lengths a 0 \<noteq> 0 \<and> \<not> dup_ok \<longrightarrow>
            pregCompileRegexArg (ghargdup_spec dup_ok) (compileRegex_spec engine) a msg msglen =
              (None, strncpy (NUL # tl msg) ''Out of memory'' msglen))
       \<and> (args a 0 = Some bytes \<and> lengths a 0 \<noteq> 0 \<and> dup_ok \<and>
          engine (take (nat (to_int (lengths a 0))) (take (nat (lengths a 0)) bytes)) = Inl diag
          \<longrightarrow>
            pregCompileRegexArg (ghargdup_spec dup_ok) (compileRegex_spec engine) a msg msglen =
              (None, take (nat msglen) diag @
                     drop (min (length diag) (nat msglen)) (NUL # tl msg)))
       \<and> drop (nat msglen)
            (snd (pregCompileRegexArg (ghargdup_spec dup_ok) (compileRegex_spec engine)
                    a msg msglen)) = drop (nat msglen) msg
       \<and> drop 128 (snd (snd (initPtrInfo (ghargdup_spec dup_ok) (compileRegex_spec engine)
                                p a msg))) = drop 128 msg"
proof -
  have u: "to_ulong msglen = msglen"
    using assms by (simp add: to_ulong_def)
  have u128: "to_ulong 128 = 128"
    by (simp add: to_ulong_def)
  have empty: "args a 0 = None \<or> lengths a 0 = 0 \<longrightarrow>
            pregCompileRegexArg (ghargdup_spec dup_ok) (compileRegex_spec engine) a msg msglen =
              (None, strncpy (NUL # tl msg) ''Empty pattern'' msglen)"
    by (auto simp: pregCompileRegexArg_def ghargdup_spec_def u split: option.splits)
  have oom: "args a 0 \<noteq> None \<and> lengths a 0 \<noteq> 0 \<and> \<not> dup_ok \<longrightarrow>
            pregCompileRegexArg (ghargdup_spec dup_ok) (compileRegex_spec engine) a msg msglen =
              (None, strncpy (NUL # tl msg) ''Out of memory'' msglen)"
    by (auto simp: pregCompileRegexArg_def ghargdup_spec_def u split: option.splits)
  have bad: "args a 0 = Some bytes \<and> lengths a 0 \<noteq> 0 \<and> dup_ok \<and>
          engine (take (nat (to_int (lengths a 0))) (take (nat (lengths a 0)) bytes)) = Inl diag
          \<longrightarrow>
            pregCompileRegexArg (ghargdup_spec dup_ok) (compileRegex_spec engine) a msg msglen =
              (None, take (nat msglen) diag @
                     drop (min (length diag) (nat msglen)) (NUL # tl msg))"
    by (simp add: pregCompileRegexArg_def ghargdup_spec_def compileRegex_spec_def)
  have bound: "0 < k \<Longrightarrow> to_ulong k = k \<Longrightarrow>
         drop (nat k) (snd (pregCompileRegexArg (ghargdup_spec dup_ok)
                              (compileRegex_spec engine) a msg k)) = drop (nat k) msg" for k
    by (cases "ghargdup_spec dup_ok a 0")
       (simp_all add: pregCompileRegexArg_def Let_def drop_strncpy drop_compileRegex_spec)
  have "drop (nat 128) (snd (pregCompileRegexArg (ghargdup_spec dup_ok)
                              (compileRegex_spec engine) a msg 128)) = drop (nat 128) msg"
    using u128 by (intro bound) simp_all
  then have init: "drop 128 (snd (snd (initPtrInfo (ghargdup_spec dup_ok)
                     (compileRegex_spec engine) p a msg))) = drop 128 msg"
    by (simp add: initPtrInfo_def split_beta)
  from empty oom bad bound [OF assms(1) u] init show ?thesis by blast
qed

text \<open>
  A buffer of ten bytes, announced as five: each diagnostic is cut to five bytes and
  the other five bytes stay.
\<close>

theorem pregCompileRegexArg_diagnostics_witness:
  "pregCompileRegexArg (ghargdup_spec True) (compileRegex_spec (\<lambda>t. Inl ''missing )''))
      \<lparr>arg_count = 1, arg_type = (\<lambda>i. STRING_RESULT), args = (\<lambda>i. None),
       lengths = (\<lambda>i. 0)\<rparr> ''0123456789'' 5 = (None :: unit option, ''Empty56789'')
   \<and> pregCompileRegexArg (ghargdup_spec False) (compileRegex_spec (\<lambda>t. Inl ''missing )''))
      \<lparr>arg_count = 1, arg_type = (\<lambda>i. STRING_RESULT), args = (\<lambda>i. Some ''/(a/''),
       lengths = (\<lambda>i. 4)\<rparr> ''0123456789'' 5 = (None :: unit option, ''Out o56789'')
   \<and> pregCompileRegexArg (ghargdup_spec True) (compileRegex_spec (\<lambda>t. Inl ''missing )''))
      \<lparr>arg_count = 1, arg_type = (\<lambda>i. STRING_RESULT), args = (\<lambda>i. Some ''/(a/''),
       lengths = (\<lambda>i. 4)\<rparr> ''0123456789'' 5 = (None :: unit option, ''missi56789'')"
  using pregCompileRegexArg_diagnostics
          [where msglen = 5 and msg = "''0123456789''" and dup_ok = True
             and engine = "\<lambda>t. Inl ''missing )'' :: string + unit"
             and a = "\<lparr>arg_count = 1, arg_type = (\<lambda>i. STRING_RESULT), args = (\<lambda>i. None),
                       lengths = (\<lambda>i. 0)\<rparr>"]
        pregCompileRegexArg_diagnostics
          [where msglen = 5 and msg = "''0123456789''" and dup_ok = False
             and engine = "\<lambda>t. Inl ''missing )'' :: string + unit"
             and a = "\<lparr>arg_count = 1, arg_type = (\<lambda>i. STRING_RESULT),
                       args = (\<lambda>i. Some ''/(a/''), lengths = (\<lambda>i. 4)\<rparr>"]
        pregCompileRegexArg_diagnostics
          [where msglen = 5 and msg = "''0123456789''" and dup_ok = True
             and engine = "\<lambda>t. Inl ''missing )'' :: string + unit"
             and a = "\<lparr>arg_count = 1, arg_type = (\<lambda>i. STRING_RESULT),
                       args = (\<lambda>i. Some ''/(a/''), lengths = (\<lambda>i. 4)\<rparr>"
             and bytes = "''/(a/''" and diag = "''missing )''"]
  by (simp add: strncpy_def to_int_def numeral_eq_Suc)

section \<open>The capture scratch allocator\<close>

text \<open>
  Claim C5: for a pattern whose capture count is \<open>n\<close>, pregCreateOffsetsVector asks
  for a vector of \<open>3 * (n + 1)\<close> \<open>int\<close>s (four bytes each) and, when it gets it,
  stores \<open>3 * (n + 1)\<close> in \<open>count\<close>; when the engine's introspection fails or the
  allocation fails it returns NULL and \<open>count\<close> is 0. The count is one the
  arithmetic of \<open>int\<close> can triple: from 0 to 715827881 (the engine allows no more
  than 65535 groups).
\<close>

theorem pregCreateOffsetsVector_count:
  assumes "pcre_fullinfo p = (rc, n)"
  shows "(rc < 0 \<longrightarrow>
            pregCreateOffsetsVector pcre_fullinfo malloc p msg msglen =
              (None, 0, strncpy msg ''preg: error retrieving information about pattern''
                          (to_ulong msglen)))
       \<and> (0 \<le> rc \<and> 0 \<le> n \<and> n \<le> 715827881 \<longrightarrow>
            pregCreateOffsetsVector pcre_fullinfo malloc p msg msglen =
              (case malloc (4 * (3 * (n + 1))) of
                 None \<Rightarrow> (None, 0, strncpy msg ''preg: out of memory'' (to_ulong msglen))
               | Some ovec \<Rightarrow> (Some ovec, 3 * (n + 1), msg)))
       \<and> (fst (pregCreateOffsetsVector pcre_fullinfo malloc p msg msglen) = None \<longrightarrow>
            fst (snd (pregCreateOffsetsVector pcre_fullinfo malloc p msg msglen)) = 0)"
proof -
  have fail: "rc < 0 \<longrightarrow>
            pregCreateOffsetsVector pcre_fullinfo malloc p msg msglen =
              (None, 0, strncpy msg ''preg: error retrieving information about pattern''
                          (to_ulong msglen))"
    using assms by (simp add: pregCreateOffsetsVector_def)
  have size: "0 \<le> rc \<and> 0 \<le> n \<and> n \<le> 715827881 \<longrightarrow>
            pregCreateOffsetsVector pcre_fullinfo malloc p msg msglen =
              (case malloc (4 * (3 * (n + 1))) of
                 None \<Rightarrow> (None, 0, strncpy msg ''preg: out of memory'' (to_ulong msglen))
               | Some ovec \<Rightarrow> (Some ovec, 3 * (n + 1), msg))"
  proof
    assume r: "0 \<le> rc \<and> 0 \<le> n \<and> n \<le> 715827881"
    then have n: "0 \<le> n" "n \<le> 715827881" and "\<not> rc < 0"
      by simp_all
    with assms show "pregCreateOffsetsVector pcre_fullinfo malloc p msg msglen =
              (case malloc (4 * (3 * (n + 1))) of
                 None \<Rightarrow> (None, 0, strncpy msg ''preg: out of memory'' (to_ulong msglen))
               | Some ovec \<Rightarrow> (Some ovec, 3 * (n + 1), msg))"
      by (simp add: pregCreateOffsetsVector_def Let_def to_int_id to_ulong_id
            split: option.split)
  qed
  have null: "fst (pregCreateOffsetsVector pcre_fullinfo malloc p msg msglen) = None \<longrightarrow>
            fst (snd (pregCreateOffsetsVector pcre_fullinfo malloc p msg msglen)) = 0"
    using assms by (simp add: pregCreateOffsetsVector_def Let_def split: option.split)
  from fail size null show ?thesis by blast
qed

text \<open>
  Patterns with no group and with one group, an allocation that fails, and an
  introspection that fails.
\<close>

theorem pregCreateOffsetsVector_count_witness:
  "pregCreateOffsetsVector (\<lambda>p. (0, p)) (\<lambda>n. Some (replicate (nat (n div 4)) 0)) 0 [] 128 =
     (Some [0, 0, 0], 3, [])
   \<and> pregCreateOffsetsVector (\<lambda>p. (0, p)) (\<lambda>n. Some (replicate (nat (n div 4)) 0)) 1 [] 128 =
     (Some [0, 0, 0, 0, 0, 0], 6, [])
   \<and> pregCreateOffsetsVector (\<lambda>p. (0, p)) (\<lambda>n. None) 1 [] 4 = (None, 0, ''preg'')
   \<and> pregCreateOffsetsVector (\<lambda>p. (- 2, p)) (\<lambda>n. None) 1 [] 4 = (None, 0, ''preg'')"
  using pregCreateOffsetsVector_count
          [of "\<lambda>p. (0, p)" 0 0 0 "\<lambda>n. Some (replicate (nat (n div 4)) 0)" "[]" 128]
        pregCreateOffsetsVector_count
          [of "\<lambda>p. (0, p)" 1 0 1 "\<lambda>n. Some (replicate (nat (n div 4)) 0)" "[]" 128]
        pregCreateOffsetsVector_count [of "\<lambda>p. (0, p)" 1 0 1 "\<lambda>n. None" "[]" 4]
        pregCreateOffsetsVector_count [of "\<lambda>p. (- 2, p)" 1 "- 2" 1 "\<lambda>n. None" "[]" 4]
  by (simp add: strncpy_def to_ulong_def numeral_eq_Suc)

section \<open>The output buffer\<close>

lemma memcpy_Some:
  assumes "nat l \<le> length s" "nat l \<le> length b"
  shows "memcpy b s l = Some (take (nat l) s @ drop (nat l) b)"
  using assms by (simp add: memcpy_def)

lemma store_after_memcpy:
  assumes "0 \<le> l" "nat l \<le> length s" "nat l < length b"
  shows "store (take (nat l) s @ drop (nat l) b) l NUL =
           Some (take (nat l) s @ NUL # drop (Suc (nat l)) b)"
proof -
  have len: "length (take (nat l) s) = nat l"
    using assms by simp
  have "(take (nat l) s @ drop (nat l) b)[nat l := NUL] =
          take (nat l) s @ (drop (nat l) b)[0 := NUL]"
    using len by (simp add: list_update_append)
  moreover have "drop (nat l) b = b ! nat l # drop (Suc (nat l)) b"
    using assms by (simp add: Cons_nth_drop_Suc)
  ultimately have "(take (nat l) s @ drop (nat l) b)[nat l := NUL] =
          take (nat l) s @ NUL # drop (Suc (nat l)) b"
    by simp
  then show ?thesis
    using assms by (simp add: store_def)
qed

lemma pregCopyToReturnBuffer_result:
  assumes "0 \<le> l" and "l < INT_MAX" and "nat l \<le> length s"
    and "return_buffer p = Some b" and "int (length b) = return_buffer_size p"
    and "case malloc (l + 1) of None \<Rightarrow> True | Some nb \<Rightarrow> int (length nb) = l + 1"
  shows "pregCopyToReturnBuffer malloc p s l =
     (if return_buffer_size p < l + 1
      then (case malloc (l + 1) of
              None \<Rightarrow> Some (- 1, p, [Malloc (l + 1)])
            | Some nb \<Rightarrow>
                Some (l, p\<lparr>return_buffer := Some (take (nat l) s @ NUL # drop (Suc (nat l)) nb),
                           return_buffer_size := l + 1\<rparr>,
                      [Malloc (l + 1), Free ReturnBuffer]))
      else Some (l, p\<lparr>return_buffer := Some (take (nat l) s @ NUL # drop (Suc (nat l)) b)\<rparr>, []))"
proof (cases "return_buffer_size p < l + 1")
  case True
  show ?thesis
  proof (cases "malloc (l + 1)")
    case None
    with True assms show ?thesis
      by (simp add: pregCopyToReturnBuffer_def copy_sizes)
  next
    case (Some nb)
    with assms have n: "nat l < length nb" by simp
    have "memcpy nb s l = Some (take (nat l) s @ drop (nat l) nb)"
      using assms n by (simp add: memcpy_Some)
    moreover have "store (take (nat l) s @ drop (nat l) nb) l NUL =
           Some (take (nat l) s @ NUL # drop (Suc (nat l)) nb)"
      using assms n by (simp add: store_after_memcpy)
    ultimately show ?thesis
      using True Some assms by (simp add: pregCopyToReturnBuffer_def copy_sizes)
  qed
next
  case False
  with assms have n: "nat l < length b" by simp
  have "memcpy b s l = Some (take (nat l) s @ drop (nat l) b)"
    using assms n by (simp add: memcpy_Some)
  moreover have "store (take (nat l) s @ drop (nat l) b) l NUL =
         Some (take (nat l) s @ NUL # drop (Suc (nat l)) b)"
    using assms n by (simp add: store_after_memcpy)
  ultimately show ?thesis
    using False assms by (simp add: pregCopyToReturnBuffer_def copy_sizes)
qed

text \<open>
  Claim C4: a copy of \<open>l\<close> bytes, \<open>l\<close> not negative, into the output buffer: if
  \<open>l + 1\<close> exceeds the capacity, there is one allocation, of exactly \<open>l + 1\<close>
  bytes, the old buffer is freed and the capacity becomes \<open>l + 1\<close> (if the
  allocation fails the result is -1 and nothing changes); otherwise nothing is
  allocated and the capacity stays. After a copy that succeeds the buffer holds the
  \<open>l\<close> bytes and then NUL. The context has a buffer of the capacity it records, the
  source has \<open>l\<close> bytes, the allocator gives blocks of the size asked for, and
  \<open>l + 1\<close> is an \<open>int\<close>.
\<close>

theorem pregCopyToReturnBuffer_capacity:
  assumes "0 \<le> l" and "l < INT_MAX" and "nat l \<le> length s"
    and "return_buffer p = Some b" and "int (length b) = return_buffer_size p"
    and "case malloc (l + 1) of None \<Rightarrow> True | Some nb \<Rightarrow> int (length nb) = l + 1"
  shows "pregCopyToReturnBuffer malloc p s l =
     (if return_buffer_size p < l + 1
      then (case malloc (l + 1) of
              None \<Rightarrow> Some (- 1, p, [Malloc (l + 1)])
            | Some nb \<Rightarrow>
                Some (l, p\<lparr>return_buffer := Some (take (nat l) s @ NUL # drop (Suc (nat l)) nb),
                           return_buffer_size := l + 1\<rparr>,
                      [Malloc (l + 1), Free ReturnBuffer]))
      else Some (l, p\<lparr>return_buffer := Some (take (nat l) s @ NUL # drop (Suc (nat l)) b)\<rparr>, []))"
  using assms by (rule pregCopyToReturnBuffer_result)

text \<open>
  A buffer of two bytes grows to the four that three bytes and the terminator need; a
  buffer of six bytes is kept, and the bytes past the terminator stay.
\<close>

theorem pregCopyToReturnBuffer_capacity_witness:
  "pregCopyToReturnBuffer (\<lambda>n. Some (replicate (nat n) CHR ''#''))
       \<lparr>re = Some (), constant_pattern = 1, return_buffer = Some ''ab'',
        return_buffer_size = 2\<rparr> ''foxy'' 3 =
     Some (3, \<lparr>re = Some (), constant_pattern = 1, return_buffer = Some (''fox'' @ [NUL]),
               return_buffer_size = 4\<rparr>, [Malloc 4, Free ReturnBuffer])
   \<and> pregCopyToReturnBuffer (\<lambda>n. None)
       \<lparr>re = Some (), constant_pattern = 1, return_buffer = Some ''abcdef'',
        return_buffer_size = 6\<rparr> ''foxy'' 3 =
     Some (3, \<lparr>re = Some (), constant_pattern = 1, return_buffer = Some (''fox'' @ NUL # ''ef''),
               return_buffer_size = 6\<rparr>, [])"
  using pregCopyToReturnBuffer_capacity
          [of 3 "''foxy''" "\<lparr>re = Some (), constant_pattern = 1, return_buffer = Some ''ab'',
             return_buffer_size = 2\<rparr>" "''ab''" "\<lambda>n. Some (replicate (nat n) CHR ''#'')"]
        pregCopyToReturnBuffer_capacity
          [of 3 "''foxy''" "\<lparr>re = Some (), constant_pattern = 1, return_buffer = Some ''abcdef'',
             return_buffer_size = 6\<rparr>" "''abcdef''" "\<lambda>n. None"]
  by (simp add: numeral_eq_Suc)

section \<open>The output materializer\<close>

text \<open>
  Claim C3: in a context with an output buffer, a negative \<open>s_len\<close> sets the
  error flag, sets \<open>is_null\<close> if the context is nullable, logs the code, and changes
  nothing of the buffer but its first byte, which becomes NUL; a non-negative
  \<open>s_len\<close> with no source string is an empty result, neither null nor an error.
\<close>

theorem pregMoveToReturnValues_policy:
  assumes "ptr initid = Some p" and "return_buffer p = Some b" and "b \<noteq> []"
  shows "(s_len < 0 \<longrightarrow>
           pregMoveToReturnValues malloc initid is_null s s_len =
             Some \<lparr>ret = (if maybe_null initid \<noteq> 0 \<or> is_null \<noteq> 0 then None
                          else Some (NUL # tl b)),
                   ctx = initid\<lparr>ptr := Some (p\<lparr>return_buffer := Some (NUL # tl b)\<rparr>)\<rparr>,
                   out_length = 0,
                   out_is_null = (if maybe_null initid \<noteq> 0 then 1 else is_null),
                   out_error = 1, trace = [Log s_len]\<rparr>)
       \<and> (0 \<le> s_len \<longrightarrow>
           pregMoveToReturnValues malloc initid is_null None s_len =
             Some \<lparr>ret = Some (NUL # tl b),
                   ctx = initid\<lparr>ptr := Some (p\<lparr>return_buffer := Some (NUL # tl b)\<rparr>)\<rparr>,
                   out_length = 0, out_is_null = 0, out_error = 0, trace = []\<rparr>)"
proof -
  from assms(3) obtain c cs where b: "b = c # cs" by (cases b) auto
  then have "store b 0 NUL = Some (NUL # tl b)" by (simp add: store_def)
  with assms show ?thesis
    by (simp add: pregMoveToReturnValues_def leave_def)
qed

theorem pregMoveToReturnValues_policy_witness:
  "pregMoveToReturnValues (\<lambda>n. None)
        \<lparr>maybe_null = 1, max_length = 5,
         ptr = Some \<lparr>re = Some (), constant_pattern = 1, return_buffer = Some ''abcdef'',
                     return_buffer_size = 6\<rparr>\<rparr> 0 (Some ''fox'') (- 8) =
     Some \<lparr>ret = None,
           ctx = \<lparr>maybe_null = 1, max_length = 5,
                  ptr = Some \<lparr>re = Some (), constant_pattern = 1,
                              return_buffer = Some (NUL # ''bcdef''),
                              return_buffer_size = 6\<rparr>\<rparr>,
           out_length = 0, out_is_null = 1, out_error = 1, trace = [Log (- 8)]\<rparr>
   \<and> pregMoveToReturnValues (\<lambda>n. None)
        \<lparr>maybe_null = 1, max_length = 5,
         ptr = Some \<lparr>re = Some (), constant_pattern = 1, return_buffer = Some ''abcdef'',
                     return_buffer_size = 6\<rparr>\<rparr> 0 None 0 =
     Some \<lparr>ret = Some (NUL # ''bcdef''),
           ctx = \<lparr>maybe_null = 1, max_length = 5,
                  ptr = Some \<lparr>re = Some (), constant_pattern = 1,
                              return_buffer = Some (NUL # ''bcdef''),
                              return_buffer_size = 6\<rparr>\<rparr>,
           out_length = 0, out_is_null = 0, out_error = 0, trace = []\<rparr>"
  using pregMoveToReturnValues_policy
     [of "\<lparr>maybe_null = 1, max_length = 5,
         ptr = Some \<lparr>re = Some (), constant_pattern = 1, return_buffer = Some ''abcdef'',
                     return_buffer_size = 6\<rparr>\<rparr>"
         "\<lparr>re = Some (), constant_pattern = 1, return_buffer = Some ''abcdef'',
                     return_buffer_size = 6\<rparr>" "''abcdef''" "- 8" "\<lambda>n. None" 0 "Some ''fox''"]
        pregMoveToReturnValues_policy
     [of "\<lparr>maybe_null = 1, max_length = 5,
         ptr = Some \<lparr>re = Some (), constant_pattern = 1, return_buffer = Some ''abcdef'',
                     return_buffer_size = 6\<rparr>\<rparr>"
         "\<lparr>re = Some (), constant_pattern = 1, return_buffer = Some ''abcdef'',
                     return_buffer_size = 6\<rparr>" "''abcdef''" 0 "\<lambda>n. None" 0 "None"]
  by simp

text \<open>
  Claim C9, as stated: the source string is freed whenever it is present, also when
  \<open>s_len\<close> is negative. With a negative \<open>s_len\<close> the function only logs the
  code: the source is not freed.
\<close>

theorem pregMoveToReturnValues_negative_keeps_source:
  "map_option trace
     (pregMoveToReturnValues (\<lambda>n. None)
        \<lparr>maybe_null = 1, max_length = 5,
         ptr = Some \<lparr>re = Some (), constant_pattern = 1, return_buffer = Some ''abcdef'',
                     return_buffer_size = 6\<rparr>\<rparr> 0 (Some ''fox'') (- 1)) = Some [Log (- 1)]"
  by (simp add: pregMoveToReturnValues_def leave_def store_def)

text \<open>
  Claim C9, amended: with a source string and a non-negative \<open>s_len\<close> the source
  is freed once, after the copy attempt, whether the copy succeeds or the buffer
  cannot grow; with a negative \<open>s_len\<close> it is not freed. The context, the source
  and the allocator are as for the copy.
\<close>

theorem pregMoveToReturnValues_frees_source:
  assumes "ptr initid = Some p" and "return_buffer p = Some b" and "b \<noteq> []"
    and "int (length b) = return_buffer_size p"
    and "0 \<le> s_len" and "s_len < INT_MAX" and "nat s_len \<le> length bytes"
    and "case malloc (s_len + 1) of None \<Rightarrow> True
         | Some nb \<Rightarrow> int (length nb) = s_len + 1"
  shows "map_option trace (pregMoveToReturnValues malloc initid is_null (Some bytes) s_len) =
           Some ((if return_buffer_size p < s_len + 1
                  then Malloc (s_len + 1) #
                       (if malloc (s_len + 1) = None then [] else [Free ReturnBuffer])
                  else []) @ [Free Source])
       \<and> (n < 0 \<longrightarrow>
            map_option trace (pregMoveToReturnValues malloc initid is_null (Some bytes) n) =
              Some [Log n])"
proof -
  from assms(3) obtain c cs where b: "b = c # cs" by (cases b) auto
  then have st: "store b 0 NUL = Some (NUL # cs)" by (simp add: store_def)
  let ?p0 = "p\<lparr>return_buffer := Some (NUL # cs)\<rparr>"
  have copy: "pregCopyToReturnBuffer malloc ?p0 bytes s_len =
     (if return_buffer_size ?p0 < s_len + 1
      then (case malloc (s_len + 1) of
              None \<Rightarrow> Some (- 1, ?p0, [Malloc (s_len + 1)])
            | Some nb \<Rightarrow>
                Some (s_len, ?p0\<lparr>return_buffer := Some (take (nat s_len) bytes @ NUL # drop (Suc (nat s_len)) nb),
                           return_buffer_size := s_len + 1\<rparr>,
                      [Malloc (s_len + 1), Free ReturnBuffer]))
      else Some (s_len, ?p0\<lparr>return_buffer := Some (take (nat s_len) bytes @ NUL # drop (Suc (nat s_len)) (NUL # cs))\<rparr>, []))"
    using assms b by (intro pregCopyToReturnBuffer_result) simp_all
  have pos: "map_option trace (pregMoveToReturnValues malloc initid is_null (Some bytes) s_len) =
           Some ((if return_buffer_size p < s_len + 1
                  then Malloc (s_len + 1) #
                       (if malloc (s_len + 1) = None then [] else [Free ReturnBuffer])
                  else []) @ [Free Source])"
    using assms(1,2,5) st copy
    by (cases "malloc (s_len + 1)") (simp_all add: pregMoveToReturnValues_def leave_def Let_def)
  have neg: "n < 0 \<longrightarrow>
            map_option trace (pregMoveToReturnValues malloc initid is_null (Some bytes) n) =
              Some [Log n]"
    using assms(1,2) st by (simp add: pregMoveToReturnValues_def leave_def Let_def)
  from pos neg show ?thesis by simp
qed

text \<open>
  A copy that fails because the buffer cannot grow, and a negative length.
\<close>

theorem pregMoveToReturnValues_frees_source_witness:
  "map_option trace
     (pregMoveToReturnValues (\<lambda>n. None)
        \<lparr>maybe_null = 1, max_length = 1,
         ptr = Some \<lparr>re = Some (), constant_pattern = 1, return_buffer = Some ''ab'',
                     return_buffer_size = 2\<rparr>\<rparr> 0 (Some ''fox'') 3) =
     Some [Malloc 4, Free Source]
   \<and> map_option trace
     (pregMoveToReturnValues (\<lambda>n. None)
        \<lparr>maybe_null = 1, max_length = 1,
         ptr = Some \<lparr>re = Some (), constant_pattern = 1, return_buffer = Some ''ab'',
                     return_buffer_size = 2\<rparr>\<rparr> 0 (Some ''fox'') (- 8)) =
     Some [Log (- 8)]"
  using pregMoveToReturnValues_frees_source
     [of "\<lparr>maybe_null = 1, max_length = 1,
         ptr = Some \<lparr>re = Some (), constant_pattern = 1, return_buffer = Some ''ab'',
                     return_buffer_size = 2\<rparr>\<rparr>"
         "\<lparr>re = Some (), constant_pattern = 1, return_buffer = Some ''ab'',
                     return_buffer_size = 2\<rparr>" "''ab''" 3 "''fox''" "\<lambda>n. None" 0 "- 8"]
  by simp

end
